theory Spec2Isabelle
  imports Complex_Main
begin

section \<open>Outcomes, the configuration and the world of a run\<close>

text \<open>
  A Python statement either completes or leaves through an exception that nothing in the
  two modules handles (neither contains a \<^verbatim>\<open>try\<close>). Three ways of leaving occur:
  \<^item> \<open>Exit n\<close>: the call \<^verbatim>\<open>exit(n)\<close>, after which the interpreter stops with status \<open>n\<close>;
  \<^item> \<open>NameError x\<close>: a reference to the name \<open>x\<close> that no statement has bound;
  \<^item> \<open>Raised c\<close>: an exception of class \<open>c\<close> coming out of a call into a library or
    into a module of the project that is not part of the two modules modelled here.
\<close>

datatype error = Exit int | NameError string | Raised string

text \<open>
  Modelled from the spec: the configuration record \<^verbatim>\<open>utils.config.Config\<close>, whose
  declaration is not among the sources. The fields are the ones the two modules read
  (\<^verbatim>\<open>config.dataset\<close>, \<^verbatim>\<open>config.network\<close>, ...), typed as the configuration-file format
  gives them: the two identifiers are strings, the validation split is numeric and is
  only ever passed on.
\<close>

record Config =
  dataset :: string
  network :: string
  batch_size :: int
  validation_size :: real
  augment :: bool
  seed :: int
  weights_dir :: string
  weights_path :: string
  include_top :: bool
  weights :: "string option"

text \<open>
  Modelled from the spec: the members of the enumeration \<^verbatim>\<open>utils.config.Datasets\<close>, whose
  declaration is not among the sources. The specification names the closed set
  \<open>{CIFAR10, CIFAR100, CIFAR10_128}\<close> and lets the identifier of the configuration be a
  string compared with them by equality; the driver compares the same field with the
  literal \<^verbatim>\<open>"CIFAR10"\<close>.
\<close>

definition Datasets_CIFAR10 :: string where
  "Datasets_CIFAR10 = ''CIFAR10''"

definition Datasets_CIFAR100 :: string where
  "Datasets_CIFAR100 = ''CIFAR100''"

definition Datasets_CIFAR10_128 :: string where
  "Datasets_CIFAR10_128 = ''CIFAR10_128''"

text \<open>The three dataset classes that \<^verbatim>\<open>load_dataset\<close> imports under the name \<^verbatim>\<open>Dataset\<close>.\<close>

datatype dataset_class = CIFAR10 | CIFAR100 | CIFAR10_128

text \<open>
  Calls that leave the two modules are recorded, with their arguments, in the order in
  which they are made.
\<close>

datatype call =
    Seed_everything int
  | Construct_dataset dataset_class int real bool
  | Generate_CIFAR10 int real bool
  | Construct_ResNet50 bool "string option" int
  | Load_from_checkpoint string
  | Trainer_test
  | Savefig string
  | Close_figure nat

text \<open>
  A figure of the plotting library, as far as the driver sets it: the matrix drawn as a
  heatmap (none before \<^verbatim>\<open>sns.heatmap\<close>), the annotation switches, the tick labels of
  both axes, the rotation of the x tick labels, the axis labels and the title. The type
  \<open>'x\<close> is the type of tensors, which the modules never look into.
\<close>

record 'x figure =
  figsize :: "real \<times> real"
  heatmap_data :: "'x option"
  annot :: bool
  fmt :: string
  cmap :: string
  xticklabels :: "string list"
  yticklabels :: "string list"
  x_labelrotation :: int
  xlabel :: string
  ylabel :: string
  title :: string

text \<open>
  The world: the lines printed so far, the calls made so far, the figures the plotting
  library holds open (the last one is its current figure), the number it gives to the next
  figure, and the image files of the working directory.
\<close>

record 'x world =
  stdout :: "string list"
  calls :: "call list"
  figs :: "(nat \<times> 'x figure) list"
  next_fig :: nat
  files :: "string \<rightharpoonup> 'x figure"

type_synonym ('x, 'a) prog = "'x world \<Rightarrow> (error + 'a) \<times> 'x world"

definition ret :: "'a \<Rightarrow> ('x, 'a) prog" where
  "ret a w = (Inr a, w)"

definition raise :: "error \<Rightarrow> ('x, 'a) prog" where
  "raise e w = (Inl e, w)"

definition seq :: "('x, 'a) prog \<Rightarrow> ('a \<Rightarrow> ('x, 'b) prog) \<Rightarrow> ('x, 'b) prog" where
  "seq m f w = (case m w of (Inl e, w') \<Rightarrow> (Inl e, w') | (Inr a, w') \<Rightarrow> f a w')"

definition print :: "string \<Rightarrow> ('x, unit) prog" where
  "print s w = (Inr (), w\<lparr>stdout := stdout w @ [s]\<rparr>)"

definition exit :: "int \<Rightarrow> ('x, 'a) prog" where
  "exit n = raise (Exit n)"

definition record_call :: "call \<Rightarrow> ('x, unit) prog" where
  "record_call c w = (Inr (), w\<lparr>calls := calls w @ [c]\<rparr>)"

definition lift :: "error + 'a \<Rightarrow> ('x, 'a) prog" where
  "lift r w = (r, w)"

section \<open>The dataset dispatcher\<close>

text \<open>
  \<^verbatim>\<open>datasets/load_dataset.py\<close>. The constructors of the three dataset classes are not among
  the sources; \<open>D\<close> stands for them and gives, for a class and the three positional
  arguments, the object built or the exception the constructor raises.
\<close>

definition construct ::
  "(dataset_class \<Rightarrow> int \<Rightarrow> real \<Rightarrow> bool \<Rightarrow> error + 'd) \<Rightarrow>
     dataset_class \<Rightarrow> int \<Rightarrow> real \<Rightarrow> bool \<Rightarrow> ('x, 'd) prog" where
  "construct D c b v a = seq (record_call (Construct_dataset c b v a)) (\<lambda>_. lift (D c b v a))"

definition load_dataset ::
  "(dataset_class \<Rightarrow> int \<Rightarrow> real \<Rightarrow> bool \<Rightarrow> error + 'd) \<Rightarrow> Config \<Rightarrow> ('x, 'd) prog" where
  "load_dataset D config =
     seq (if dataset config = Datasets_CIFAR10 then ret CIFAR10
          else if dataset config = Datasets_CIFAR100 then ret CIFAR100
          else if dataset config = Datasets_CIFAR10_128 then ret CIFAR10_128
          else seq (print ''[ERROR] Invalid dataset passed in configuration file. Exiting...'')
                 (\<lambda>_. exit 1))
       (\<lambda>Dataset. construct D Dataset (batch_size config) (validation_size config) (augment config))"

section \<open>The evaluation adapter\<close>

text \<open>
  A metric of the metrics library is an accumulator: constructed with its task, its number
  of classes and (for some) an averaging mode, it takes in one observation
  \<open>(output, target)\<close> per call of \<^verbatim>\<open>update\<close>, and \<^verbatim>\<open>compute\<close> reads the observations
  taken in so far. The accumulator is modelled by the sequence of its observations, of
  which every internal state of the library's accumulator is a function.
\<close>

datatype metric_class = Accuracy | Precision | Recall | AUROC | ConfusionMatrix

record 'x metric =
  m_class :: metric_class
  m_task :: string
  m_num_classes :: int
  m_average :: "string option"
  observed :: "('x \<times> 'x) list"

definition new_metric :: "metric_class \<Rightarrow> string \<Rightarrow> int \<Rightarrow> string option \<Rightarrow> 'x metric" where
  "new_metric c t n a =
     \<lparr>m_class = c, m_task = t, m_num_classes = n, m_average = a, observed = []\<rparr>"

definition update :: "'x metric \<Rightarrow> 'x \<Rightarrow> 'x \<Rightarrow> 'x metric" where
  "update m output target = m\<lparr>observed := observed m @ [(output, target)]\<rparr>"

text \<open>
  A \<^verbatim>\<open>MetricCollection\<close> holds named metrics and passes every update on to each of them.
  The entries are kept here in the order of the dictionary the driver writes; the order
  only decides the order of the lines printed at the end.
\<close>

definition update_collection ::
  "(string \<times> 'x metric) list \<Rightarrow> 'x \<Rightarrow> 'x \<Rightarrow> (string \<times> 'x metric) list" where
  "update_collection ms output target = map (\<lambda>(name, m). (name, update m output target)) ms"

text \<open>
  The class \<^verbatim>\<open>Model\<close> of \<^verbatim>\<open>test.py\<close>: the wrapped network, the loss function and the two
  accumulators. The network and the loss are functions on tensors.
\<close>

record 'x Model =
  model :: "'x \<Rightarrow> 'x"
  criterion :: "'x \<Rightarrow> 'x \<Rightarrow> 'x"
  metrics :: "(string \<times> 'x metric) list"
  confusion_matrix :: "'x metric"

text \<open>
  \<^verbatim>\<open>Model.__init__\<close>. The name \<^verbatim>\<open>num_classes\<close> in its body is the global variable of the
  script, passed here as the first argument.
\<close>

definition Model_init :: "int \<Rightarrow> ('x \<Rightarrow> 'x) \<Rightarrow> ('x \<Rightarrow> 'x \<Rightarrow> 'x) \<Rightarrow> 'x Model" where
  "Model_init num_classes model_arg criterion_arg =
     \<lparr>model = model_arg,
      criterion = criterion_arg,
      metrics =
        [(''accuracy'', new_metric Accuracy ''multiclass'' num_classes None),
         (''precision'', new_metric Precision ''multiclass'' num_classes (Some ''macro'')),
         (''recall'', new_metric Recall ''multiclass'' num_classes (Some ''macro'')),
         (''auc'', new_metric AUROC ''multiclass'' num_classes None)],
      confusion_matrix = new_metric ConfusionMatrix ''multiclass'' num_classes None\<rparr>"

definition step :: "'x Model \<Rightarrow> 'x \<times> 'x \<Rightarrow> 'x \<times> 'x \<times> 'x" where
  "step self batch =
     (case batch of (inputs, target) \<Rightarrow>
        let output = model self inputs;
            loss = criterion self output target
        in (loss, output, target))"

text \<open>
  \<^verbatim>\<open>test_step\<close> changes the two accumulators of \<open>self\<close> in place and has no \<^verbatim>\<open>return\<close>
  statement: the result is Python's \<^verbatim>\<open>None\<close> together with the object after the call.
\<close>

definition test_step :: "'x Model \<Rightarrow> 'x \<times> 'x \<Rightarrow> nat \<Rightarrow> 'x option \<times> 'x Model" where
  "test_step self batch batch_idx =
     (case step self batch of (loss, output, target) \<Rightarrow>
        let self1 = self\<lparr>metrics := update_collection (metrics self) output target\<rparr>;
            self2 = self1\<lparr>confusion_matrix := update (confusion_matrix self1) output target\<rparr>
        in (None, self2))"

section \<open>The command line\<close>

text \<open>
  The argument parser of the standard library, for parsers that only hold optional flags
  taking one value, as the driver's does. \<^verbatim>\<open>add_argument\<close> with nothing but a flag and a help
  text leaves \<^verbatim>\<open>required\<close> at \<^verbatim>\<open>False\<close> and \<^verbatim>\<open>default\<close> at \<^verbatim>\<open>None\<close>. Parsing stops with
  status 0 on a help flag and with status 2 on a usage error (a flag without its value, a
  required flag left out, an argument no flag accounts for). Flags are matched as they are
  written: the spelling \<^verbatim>\<open>--flag=value\<close> and abbreviated flags are outside this model. The
  help and usage texts are not part of \<open>stdout\<close> here.
\<close>

record argument =
  option_string :: string
  arg_help :: string
  arg_required :: bool
  arg_default :: "string option"

definition ArgumentParser :: "string \<Rightarrow> argument list" where
  "ArgumentParser description = []"

definition add_argument :: "argument list \<Rightarrow> string \<Rightarrow> string \<Rightarrow> argument list" where
  "add_argument p flag help_text =
     p @ [\<lparr>option_string = flag, arg_help = help_text, arg_required = False, arg_default = None\<rparr>]"

definition dest :: "argument \<Rightarrow> string" where
  "dest a = map (\<lambda>c. if c = CHR ''-'' then CHR ''_'' else c)
              (dropWhile (\<lambda>c. c = CHR ''-'') (option_string a))"

fun scan ::
  "argument list \<Rightarrow> string list \<Rightarrow> (string \<rightharpoonup> string) \<Rightarrow> bool \<Rightarrow>
     error + (string \<rightharpoonup> string) \<times> bool" where
  "scan p [] seen extras = Inr (seen, extras)"
| "scan p [a] seen extras =
     (if a = ''-h'' \<or> a = ''--help'' then Inl (Exit 0)
      else case find (\<lambda>arg. option_string arg = a) p of
             None \<Rightarrow> Inr (seen, True)
           | Some arg \<Rightarrow> Inl (Exit 2))"
| "scan p (a # v # rest) seen extras =
     (if a = ''-h'' \<or> a = ''--help'' then Inl (Exit 0)
      else case find (\<lambda>arg. option_string arg = a) p of
             None \<Rightarrow> scan p (v # rest) seen True
           | Some arg \<Rightarrow>
               if take 1 v = ''-'' then Inl (Exit 2)
               else scan p rest (seen(dest arg \<mapsto> v)) extras)"

text \<open>
  The namespace that \<^verbatim>\<open>parse_args\<close> returns has one attribute per declared flag: the value
  given on the command line, or the flag's default.
\<close>

definition parse_args ::
  "argument list \<Rightarrow> string list \<Rightarrow> error + (string \<rightharpoonup> string option)" where
  "parse_args p argv =
     (case scan p argv Map.empty False of
        Inl e \<Rightarrow> Inl e
      | Inr (seen, extras) \<Rightarrow>
          if list_ex (\<lambda>arg. arg_required arg \<and> seen (dest arg) = None) p then Inl (Exit 2)
          else if extras then Inl (Exit 2)
          else Inr (\<lambda>name.
                 case find (\<lambda>arg. dest arg = name) p of
                   None \<Rightarrow> None
                 | Some arg \<Rightarrow>
                     Some (case seen name of Some v \<Rightarrow> Some v | None \<Rightarrow> arg_default arg)))"

definition getattr :: "(string \<rightharpoonup> 'v) \<Rightarrow> string \<Rightarrow> error + 'v" where
  "getattr ns name =
     (case ns name of None \<Rightarrow> Inl (Raised ''AttributeError'') | Some v \<Rightarrow> Inr v)"

section \<open>The driver script\<close>

text \<open>
  What \<^verbatim>\<open>test.py\<close> calls and does not define: the JSON parser of the project, the
  device query, the dataset generator, the network class, the loss, the reading of a
  checkpoint into a network, and the \<^verbatim>\<open>compute\<close> and string conversion of the metrics
  library. Each is a field of the environment of a run; a field with a result of type
  \<open>error + _\<close> may raise.
\<close>

type_synonym 'x loader = "('x \<times> 'x) list"

record 'x env =
  parse_json :: "string option \<Rightarrow> error + Config"
  cuda_is_available :: bool
  generate_CIFAR10 ::
    "int \<Rightarrow> real \<Rightarrow> bool \<Rightarrow> error + 'x loader \<times> 'x loader \<times> 'x loader \<times> (string \<times> int) list"
  ResNet50 :: "bool \<Rightarrow> string option \<Rightarrow> int \<Rightarrow> error + ('x \<Rightarrow> 'x)"
  CrossEntropyLoss :: "'x \<Rightarrow> 'x \<Rightarrow> 'x"
  load_checkpoint :: "string \<Rightarrow> ('x \<Rightarrow> 'x) \<Rightarrow> error + ('x \<Rightarrow> 'x)"
  compute :: "'x metric \<Rightarrow> 'x"
  str :: "'x \<Rightarrow> string"

subsection \<open>Library calls with an effect on the world\<close>

definition seed_everything :: "int \<Rightarrow> ('x, unit) prog" where
  "seed_everything s = record_call (Seed_everything s)"

definition call_generate_CIFAR10 ::
  "'x env \<Rightarrow> int \<Rightarrow> real \<Rightarrow> bool \<Rightarrow>
     ('x, 'x loader \<times> 'x loader \<times> 'x loader \<times> (string \<times> int) list) prog" where
  "call_generate_CIFAR10 env b v a =
     seq (record_call (Generate_CIFAR10 b v a)) (\<lambda>_. lift (generate_CIFAR10 env b v a))"

definition call_ResNet50 ::
  "'x env \<Rightarrow> bool \<Rightarrow> string option \<Rightarrow> int \<Rightarrow> ('x, 'x \<Rightarrow> 'x) prog" where
  "call_ResNet50 env t ws n =
     seq (record_call (Construct_ResNet50 t ws n)) (\<lambda>_. lift (ResNet50 env t ws n))"

text \<open>
  \<^verbatim>\<open>Model.load_from_checkpoint\<close> of the training framework: it reads the checkpoint,
  builds the \<^verbatim>\<open>Model\<close> from the keyword arguments and puts the stored weights into it.
\<close>

definition load_from_checkpoint ::
  "'x env \<Rightarrow> int \<Rightarrow> string \<Rightarrow> ('x \<Rightarrow> 'x) \<Rightarrow> ('x \<Rightarrow> 'x \<Rightarrow> 'x) \<Rightarrow> ('x, 'x Model) prog" where
  "load_from_checkpoint env num_classes checkpoint_path model_arg criterion_arg =
     seq (record_call (Load_from_checkpoint checkpoint_path)) (\<lambda>_.
     seq (lift (load_checkpoint env checkpoint_path model_arg)) (\<lambda>loaded.
     ret ((Model_init num_classes model_arg criterion_arg)\<lparr>model := loaded\<rparr>)))"

text \<open>
  \<^verbatim>\<open>Trainer.test\<close> of the training framework: one call of \<^verbatim>\<open>test_step\<close> per batch of
  the loader, with the index of the batch, on the same \<^verbatim>\<open>Model\<close> object.
\<close>

fun test_loop :: "'x Model \<Rightarrow> 'x loader \<Rightarrow> nat \<Rightarrow> 'x Model" where
  "test_loop m [] batch_idx = m"
| "test_loop m (batch # rest) batch_idx =
     test_loop (snd (test_step m batch batch_idx)) rest (Suc batch_idx)"

definition trainer_test :: "'x Model \<Rightarrow> 'x loader \<Rightarrow> ('x, 'x Model) prog" where
  "trainer_test m dataloaders =
     seq (record_call Trainer_test) (\<lambda>_. ret (test_loop m dataloaders 0))"

subsection \<open>The plotting library\<close>

definition blank_figure :: "real \<times> real \<Rightarrow> 'x figure" where
  "blank_figure dims =
     \<lparr>figsize = dims, heatmap_data = None, annot = False, fmt = [], cmap = [],
      xticklabels = [], yticklabels = [], x_labelrotation = 0,
      xlabel = [], ylabel = [], title = []\<rparr>"

text \<open>\<^verbatim>\<open>plt.subplots\<close> opens a figure, which becomes the current one; \<open>fig\<close> and \<open>ax\<close> both
  refer to it by its number.\<close>

definition subplots :: "real \<times> real \<Rightarrow> ('x, nat \<times> nat) prog" where
  "subplots dims w =
     (let n = next_fig w
      in (Inr (n, n), w\<lparr>figs := figs w @ [(n, blank_figure dims)], next_fig := Suc n\<rparr>))"

definition modify_figure :: "nat \<Rightarrow> ('x figure \<Rightarrow> 'x figure) \<Rightarrow> ('x, unit) prog" where
  "modify_figure n f w =
     (Inr (), w\<lparr>figs := map (\<lambda>(k, g). if k = n then (k, f g) else (k, g)) (figs w)\<rparr>)"

definition heatmap ::
  "'x \<Rightarrow> bool \<Rightarrow> string \<Rightarrow> string \<Rightarrow> string list \<Rightarrow> string list \<Rightarrow> nat \<Rightarrow> ('x, unit) prog" where
  "heatmap d an f cm xt yt ax =
     modify_figure ax (\<lambda>g. g\<lparr>heatmap_data := Some d, annot := an, fmt := f, cmap := cm,
                             xticklabels := xt, yticklabels := yt\<rparr>)"

definition tick_params :: "nat \<Rightarrow> string \<Rightarrow> int \<Rightarrow> ('x, unit) prog" where
  "tick_params ax axis labelrotation =
     modify_figure ax (\<lambda>g. if axis = ''x'' \<or> axis = ''both''
                            then g\<lparr>x_labelrotation := labelrotation\<rparr> else g)"

definition set_xlabel :: "nat \<Rightarrow> string \<Rightarrow> ('x, unit) prog" where
  "set_xlabel ax s = modify_figure ax (\<lambda>g. g\<lparr>xlabel := s\<rparr>)"

definition set_ylabel :: "nat \<Rightarrow> string \<Rightarrow> ('x, unit) prog" where
  "set_ylabel ax s = modify_figure ax (\<lambda>g. g\<lparr>ylabel := s\<rparr>)"

definition set_title :: "nat \<Rightarrow> string \<Rightarrow> ('x, unit) prog" where
  "set_title ax s = modify_figure ax (\<lambda>g. g\<lparr>title := s\<rparr>)"

text \<open>\<^verbatim>\<open>plt.savefig\<close> writes the current figure, opening one first when none is open; a file
  of the same name is replaced.\<close>

definition gcf :: "('x, nat \<times> 'x figure) prog" where
  "gcf w =
     (if figs w = []
      then (let n = next_fig w; g = blank_figure (32 / 5, 24 / 5)
            in (Inr (n, g), w\<lparr>figs := [(n, g)], next_fig := Suc n\<rparr>))
      else (Inr (last (figs w)), w))"

definition write_file :: "string \<Rightarrow> 'x figure \<Rightarrow> ('x, unit) prog" where
  "write_file fname g w = (Inr (), w\<lparr>files := (files w)(fname \<mapsto> g)\<rparr>)"

definition savefig :: "string \<Rightarrow> ('x, unit) prog" where
  "savefig fname =
     seq (record_call (Savefig fname)) (\<lambda>_.
     seq gcf (\<lambda>(n, g). write_file fname g))"

definition close :: "nat \<Rightarrow> ('x, unit) prog" where
  "close fig w =
     (Inr (), w\<lparr>calls := calls w @ [Close_figure fig],
                figs := filter (\<lambda>(k, g). k \<noteq> fig) (figs w)\<rparr>)"

subsection \<open>The statements of the script\<close>

text \<open>Lines 22 to 37: the command line, the configuration, the seed, the device message.\<close>

definition parser :: "argument list" where
  "parser =
     add_argument (ArgumentParser ''Template for PyTorch Lightning prototyping.'')
       ''--config_path'' ''The path to the configuration file to use in training/testing.''"

definition startup :: "'x env \<Rightarrow> string list \<Rightarrow> ('x, Config) prog" where
  "startup env argv =
     seq (lift (parse_args parser argv)) (\<lambda>args.
     seq (lift (getattr args ''config_path'')) (\<lambda>config_path.
     seq (lift (parse_json env config_path)) (\<lambda>config.
     seq (seed_everything (seed config)) (\<lambda>_.
     seq (if cuda_is_available env
          then print ''[INFO] CUDA is available! Training on GPU...''
          else print ''[INFO] CUDA is not available. Training on CPU...'') (\<lambda>_.
     ret config)))))"

text \<open>Lines 40 to 46: the branch binds \<^verbatim>\<open>generate_dataset\<close> and \<^verbatim>\<open>num_classes\<close>, or exits.\<close>

definition dataset_branch ::
  "'x env \<Rightarrow> Config \<Rightarrow>
     ('x, (int \<Rightarrow> real \<Rightarrow> bool \<Rightarrow>
            ('x, 'x loader \<times> 'x loader \<times> 'x loader \<times> (string \<times> int) list) prog) \<times> int) prog" where
  "dataset_branch env config =
     (if dataset config = ''CIFAR10'' then ret (call_generate_CIFAR10 env, 10)
      else seq (print ''[ERROR] Currently only CIFAR10 dataset is supported. Exiting...'')
             (\<lambda>_. exit 1))"

text \<open>Lines 55 to 58: the branch binds \<^verbatim>\<open>network\<close>, or prints and leaves it unbound.\<close>

definition network_branch ::
  "'x env \<Rightarrow> Config \<Rightarrow>
     ('x, (bool \<Rightarrow> string option \<Rightarrow> int \<Rightarrow> ('x, 'x \<Rightarrow> 'x) prog) option) prog" where
  "network_branch env config =
     (if network config = ''ResNet50'' then ret (Some (call_ResNet50 env))
      else seq (print ''[ERROR] Currently only ResNet50 network is supported. Exiting...'')
             (\<lambda>_. ret None))"

text \<open>Reading a global name that may be unbound.\<close>

definition name_lookup :: "string \<Rightarrow> 'a option \<Rightarrow> ('x, 'a) prog" where
  "name_lookup x binding = (case binding of None \<Rightarrow> raise (NameError x) | Some v \<Rightarrow> ret v)"

text \<open>Lines 40 to 62: the loaders and the network.\<close>

definition prepare ::
  "'x env \<Rightarrow> Config \<Rightarrow> ('x, 'x loader \<times> (string \<times> int) list \<times> int \<times> ('x \<Rightarrow> 'x)) prog" where
  "prepare env config =
     seq (dataset_branch env config) (\<lambda>(generate_dataset, num_classes).
     seq (generate_dataset (batch_size config) (validation_size config) (augment config))
       (\<lambda>(train_loader, validation_loader, test_loader, classes).
     seq (network_branch env config) (\<lambda>network_binding.
     seq (name_lookup ''network'' network_binding) (\<lambda>network_class.
     seq (network_class (include_top config) (weights config) num_classes) (\<lambda>model_obj.
     ret (test_loader, classes, num_classes, model_obj))))))"

text \<open>Lines 100 to 105: the checkpoint and the test loop.\<close>

definition evaluate ::
  "'x env \<Rightarrow> Config \<Rightarrow> int \<Rightarrow> ('x \<Rightarrow> 'x) \<Rightarrow> 'x loader \<Rightarrow> ('x, 'x Model) prog" where
  "evaluate env config num_classes model_obj test_loader =
     (let criterion_obj = CrossEntropyLoss env;
          checkpoint_path = weights_dir config @ ''/'' @ weights_path config @ ''.ckpt''
      in seq (load_from_checkpoint env num_classes checkpoint_path model_obj criterion_obj)
           (\<lambda>m. trainer_test m test_loader))"

text \<open>Lines 107 and 108: one printed line per metric of the collection.\<close>

fun print_metrics :: "'x env \<Rightarrow> (string \<times> 'x metric) list \<Rightarrow> ('x, unit) prog" where
  "print_metrics env [] = ret ()"
| "print_metrics env ((metric_name, metric_instance) # rest) =
     seq (print (metric_name @ '': '' @ str env (compute env metric_instance)))
       (\<lambda>_. print_metrics env rest)"

text \<open>Lines 110 to 128: the heatmap of the confusion matrix. The dictionary \<^verbatim>\<open>classes\<close> is
  the list of its items in insertion order, so its keys are the first components.\<close>

definition render :: "'x env \<Rightarrow> 'x Model \<Rightarrow> (string \<times> int) list \<Rightarrow> ('x, unit) prog" where
  "render env m classes =
     seq (subplots (8, 6)) (\<lambda>(fig, ax).
     (let class_names = map fst classes
      in seq (heatmap (compute env (confusion_matrix m)) True ''d'' ''Blues''
                class_names class_names ax) (\<lambda>_.
         seq (tick_params ax ''x'' 45) (\<lambda>_.
         seq (set_xlabel ax ''Predicted Labels'') (\<lambda>_.
         seq (set_ylabel ax ''True Labels'') (\<lambda>_.
         seq (set_title ax ''Confusion Matrix'') (\<lambda>_.
         seq (savefig ''confusion_matrix.png'') (\<lambda>_.
         close fig))))))))"

text \<open>The whole script, run on a command line; it ends with the tested \<^verbatim>\<open>model\<close>.\<close>

definition driver :: "'x env \<Rightarrow> string list \<Rightarrow> ('x, 'x Model) prog" where
  "driver env argv =
     seq (startup env argv) (\<lambda>config.
     seq (prepare env config) (\<lambda>(test_loader, classes, num_classes, model_obj).
     seq (evaluate env config num_classes model_obj test_loader) (\<lambda>m.
     seq (print_metrics env (metrics m)) (\<lambda>_.
     seq (render env m classes) (\<lambda>_.
     ret m)))))"

subsection \<open>Traces\<close>

text \<open>
  The calls a program adds to the record of the world, and the calls that construct a
  dataset class the way \<open>load_dataset\<close> does.
\<close>

fun is_dataset_construction :: "call \<Rightarrow> bool" where
  "is_dataset_construction (Construct_dataset c b v a) = True"
| "is_dataset_construction _ = False"

definition new_calls :: "('x, 'a) prog \<Rightarrow> 'x world \<Rightarrow> call list" where
  "new_calls p w = drop (length (calls w)) (calls (snd (p w)))"

definition without_dispatcher :: "('x, 'a) prog \<Rightarrow> bool" where
  "without_dispatcher p =
     (\<forall>w. \<exists>cs. calls (snd (p w)) = calls w @ cs \<and> filter is_dataset_construction cs = [])"

section \<open>Example runs\<close>

text \<open>
  A configuration with a given dataset and network identifier, and an environment in
  which that configuration is stored in \<^verbatim>\<open>config.json\<close>: tensors are numbers, the test
  loader has two batches, the dataset has two class names, the checkpoint
  \<^verbatim>\<open>weights/best.ckpt\<close> exists, and the JSON parser raises on a path that is \<^verbatim>\<open>None\<close>.
\<close>

definition example_config :: "string \<Rightarrow> string \<Rightarrow> Config" where
  "example_config d n =
     \<lparr>dataset = d, network = n, batch_size = 32, validation_size = 1 / 10, augment = True,
      seed = 42, weights_dir = ''weights'', weights_path = ''best'', include_top = True,
      weights = None\<rparr>"

definition example_env :: "Config \<Rightarrow> nat env" where
  "example_env cfg =
     \<lparr>parse_json = (\<lambda>p. case p of
                      None \<Rightarrow> Inl (Raised ''TypeError'')
                    | Some f \<Rightarrow> if f = ''config.json'' then Inr cfg
                               else Inl (Raised ''FileNotFoundError'')),
      cuda_is_available = False,
      generate_CIFAR10 = (\<lambda>b v a. Inr ([], [], [(1, 0), (2, 1)],
                                         [(''airplane'', 0), (''automobile'', 1)])),
      ResNet50 = (\<lambda>t ws n. Inr (\<lambda>x. x + 1)),
      CrossEntropyLoss = (\<lambda>p t. p - t),
      load_checkpoint = (\<lambda>f net. if f = ''weights/best.ckpt'' then Inr net
                                   else Inl (Raised ''FileNotFoundError'')),
      compute = (\<lambda>m. length (observed m)),
      str = (\<lambda>x. ''tensor'')\<rparr>"

definition example_datasets ::
  "dataset_class \<Rightarrow> int \<Rightarrow> real \<Rightarrow> bool \<Rightarrow> error + dataset_class \<times> int \<times> real \<times> bool" where
  "example_datasets c b v a = Inr (c, b, v, a)"

definition empty_world :: "nat world" where
  "empty_world = \<lparr>stdout = [], calls = [], figs = [], next_fig = 1, files = Map.empty\<rparr>"

definition example_argv :: "string list" where
  "example_argv = [''--config_path'', ''config.json'']"

section \<open>Properties of the dataset dispatcher\<close>

lemmas prog_defs = ret_def raise_def seq_def print_def exit_def record_call_def lift_def

lemma dataset_names_distinct:
  "Datasets_CIFAR10 \<noteq> Datasets_CIFAR100" "Datasets_CIFAR10 \<noteq> Datasets_CIFAR10_128"
  "Datasets_CIFAR100 \<noteq> Datasets_CIFAR10_128"
  by (simp_all add: Datasets_CIFAR10_def Datasets_CIFAR100_def Datasets_CIFAR10_128_def)

lemma load_dataset_known:
  assumes "(dataset config, cls) \<in> {(Datasets_CIFAR10, CIFAR10), (Datasets_CIFAR100, CIFAR100),
             (Datasets_CIFAR10_128, CIFAR10_128)}"
  shows "load_dataset D config w =
           (D cls (batch_size config) (validation_size config) (augment config),
            w\<lparr>calls := calls w @
                 [Construct_dataset cls (batch_size config) (validation_size config)
                    (augment config)]\<rparr>)"
  using assms dataset_names_distinct
  by (auto simp add: load_dataset_def construct_def prog_defs)

text \<open>
  C2: for every dataset identifier outside the enumeration, \<open>load_dataset\<close> prints one
  line, which contains "Invalid dataset", and leaves by \<^verbatim>\<open>exit(1)\<close>: the outcome is the
  exit with status 1 and not an exception, nothing else of the world changes, and in
  particular no dataset class is constructed.
\<close>

theorem load_dataset_rejects:
  assumes "dataset config \<notin> {Datasets_CIFAR10, Datasets_CIFAR100, Datasets_CIFAR10_128}"
  shows "load_dataset D config w =
           (Inl (Exit 1),
            w\<lparr>stdout := stdout w @
                 [''[ERROR] Invalid dataset passed in configuration file. Exiting...'']\<rparr>)
         \<and> (\<exists>p s. last (stdout (snd (load_dataset D config w))) = p @ ''Invalid dataset'' @ s)
         \<and> calls (snd (load_dataset D config w)) = calls w"
proof -
  have run: "load_dataset D config w =
           (Inl (Exit 1),
            w\<lparr>stdout := stdout w @
                 [''[ERROR] Invalid dataset passed in configuration file. Exiting...'']\<rparr>)"
    using assms by (simp add: load_dataset_def prog_defs)
  have "last (stdout (snd (load_dataset D config w)))
          = ''[ERROR] '' @ ''Invalid dataset'' @ '' passed in configuration file. Exiting...''"
    unfolding run by simp
  then have "\<exists>p s. last (stdout (snd (load_dataset D config w))) = p @ ''Invalid dataset'' @ s"
    by (intro exI)
  moreover have "calls (snd (load_dataset D config w)) = calls w"
    unfolding run by simp
  ultimately show ?thesis using run by blast
qed

theorem load_dataset_rejects_witness:
  "dataset (example_config ''MNIST'' ''ResNet50'')
     \<notin> {Datasets_CIFAR10, Datasets_CIFAR100, Datasets_CIFAR10_128}
   \<and> load_dataset example_datasets (example_config ''MNIST'' ''ResNet50'') empty_world =
       (Inl (Exit 1),
        empty_world\<lparr>stdout :=
          [''[ERROR] Invalid dataset passed in configuration file. Exiting...'']\<rparr>)"
proof -
  have h: "dataset (example_config ''MNIST'' ''ResNet50'')
             \<notin> {Datasets_CIFAR10, Datasets_CIFAR100, Datasets_CIFAR10_128}"
    by (simp add: example_config_def Datasets_CIFAR10_def Datasets_CIFAR100_def
          Datasets_CIFAR10_128_def)
  from load_dataset_rejects [OF h, of example_datasets empty_world] h
  show ?thesis by (simp add: empty_world_def)
qed

text \<open>
  C4: for each of the three identifiers of the enumeration, \<open>load_dataset\<close> constructs the
  class of the same name with the three positional arguments \<open>batch_size\<close>,
  \<open>validation_size\<close> and \<open>augment\<close> of the configuration, in this order, and returns what
  the constructor gives; it prints nothing.
\<close>

theorem load_dataset_selects:
  assumes "(dataset config, cls) \<in> {(Datasets_CIFAR10, CIFAR10), (Datasets_CIFAR100, CIFAR100),
             (Datasets_CIFAR10_128, CIFAR10_128)}"
  shows "load_dataset D config w =
           (D cls (batch_size config) (validation_size config) (augment config),
            w\<lparr>calls := calls w @
                 [Construct_dataset cls (batch_size config) (validation_size config)
                    (augment config)]\<rparr>)"
proof -
  from assms consider
      "dataset config = Datasets_CIFAR10" "cls = CIFAR10"
    | "dataset config = Datasets_CIFAR100" "cls = CIFAR100"
    | "dataset config = Datasets_CIFAR10_128" "cls = CIFAR10_128"
    by auto
  then show ?thesis
  proof cases
    case 1
    then show ?thesis
      by (simp add: load_dataset_def construct_def prog_defs)
  next
    case 2
    then show ?thesis
      using dataset_names_distinct(1)
      by (simp add: load_dataset_def construct_def prog_defs)
  next
    case 3
    then show ?thesis
      using dataset_names_distinct(2,3)
      by (simp add: load_dataset_def construct_def prog_defs)
  qed
qed

theorem load_dataset_selects_witness:
  "(dataset (example_config ''CIFAR10_128'' ''ResNet50''), CIFAR10_128)
     \<in> {(Datasets_CIFAR10, CIFAR10), (Datasets_CIFAR100, CIFAR100),
        (Datasets_CIFAR10_128, CIFAR10_128)}
   \<and> load_dataset example_datasets (example_config ''CIFAR10_128'' ''ResNet50'') empty_world =
       (Inr (CIFAR10_128, 32, 1 / 10, True),
        empty_world\<lparr>calls := [Construct_dataset CIFAR10_128 32 (1 / 10) True]\<rparr>)"
proof -
  have h: "(dataset (example_config ''CIFAR10_128'' ''ResNet50''), CIFAR10_128)
             \<in> {(Datasets_CIFAR10, CIFAR10), (Datasets_CIFAR100, CIFAR100),
                (Datasets_CIFAR10_128, CIFAR10_128)}"
    by (simp add: example_config_def Datasets_CIFAR10_128_def)
  from load_dataset_selects [OF h, of example_datasets empty_world] h
  show ?thesis by (simp add: empty_world_def example_datasets_def example_config_def)
qed

section \<open>Properties of the evaluation adapter\<close>

text \<open>
  C6: on a batch \<open>(inputs, targets)\<close>, \<open>test_step\<close> returns \<^verbatim>\<open>None\<close> and leaves the adapter as
  it was except for its two accumulators: every metric of the collection and the confusion
  matrix have taken in exactly one more observation, the pair of the network's output on
  \<open>inputs\<close> and \<open>targets\<close>. The loss that \<open>step\<close> computes from the same output and targets
  does not occur in the result.
\<close>

theorem test_step_one_observation:
  "test_step self (inputs, targets) batch_idx =
     (None,
      self\<lparr>metrics :=
             map (\<lambda>(name, m). (name, m\<lparr>observed := observed m @ [(model self inputs, targets)]\<rparr>))
               (metrics self),
           confusion_matrix :=
             (confusion_matrix self)\<lparr>observed :=
                observed (confusion_matrix self) @ [(model self inputs, targets)]\<rparr>\<rparr>)
   \<and> step self (inputs, targets) =
       (criterion self (model self inputs) targets, model self inputs, targets)"
  by (simp add: test_step_def step_def update_collection_def update_def Let_def)

section \<open>Properties of the driver script\<close>

subsection \<open>Auxiliary facts\<close>

lemma seq_Inr_elim:
  assumes "seq p f w = (Inr b, w')"
  obtains a w1 where "p w = (Inr a, w1)" and "f a w1 = (Inr b, w')"
  using assms by (auto simp add: seq_def split: prod.splits sum.splits)

lemma parser_eq:
  "parser = [\<lparr>option_string = ''--config_path'',
              arg_help = ''The path to the configuration file to use in training/testing.'',
              arg_required = False, arg_default = None\<rparr>]"
  by (simp add: parser_def add_argument_def ArgumentParser_def)

lemma parse_args_empty:
  "parse_args parser [] = Inr (\<lambda>name. if name = ''config_path'' then Some None else None)"
  by (auto simp add: parse_args_def parser_eq dest_def fun_eq_iff)

lemma parse_args_given:
  "take 1 v \<noteq> ''-'' \<Longrightarrow> parse_args parser [''--config_path'', v]
     = Inr (\<lambda>name. if name = ''config_path'' then Some (Some v) else None)"
  by (auto simp add: parse_args_def parser_eq dest_def fun_eq_iff)

lemma example_startup:
  "startup (example_env cfg) example_argv w =
     (Inr cfg,
      w\<lparr>calls := calls w @ [Seed_everything (seed cfg)],
        stdout := stdout w @ [''[INFO] CUDA is not available. Training on CPU...'']\<rparr>)"
  by (simp add: startup_def example_argv_def parse_args_given getattr_def example_env_def
        seed_everything_def prog_defs)

lemma example_config_simps:
  "dataset (example_config d n) = d" "network (example_config d n) = n"
  "batch_size (example_config d n) = 32" "validation_size (example_config d n) = 1 / 10"
  "augment (example_config d n) = True" "seed (example_config d n) = 42"
  "weights_dir (example_config d n) = ''weights''" "weights_path (example_config d n) = ''best''"
  "include_top (example_config d n) = True" "weights (example_config d n) = None"
  by (simp_all add: example_config_def)

lemma example_env_simps:
  "generate_CIFAR10 (example_env c) b v a
     = Inr ([], [], [(1, 0), (2, 1)], [(''airplane'', 0), (''automobile'', 1)])"
  "ResNet50 (example_env c) t ws n = Inr (\<lambda>x. x + 1)"
  "load_checkpoint (example_env c) ''weights/best.ckpt'' net = Inr net"
  "parse_json (example_env c) None = Inl (Raised ''TypeError'')"
  by (simp_all add: example_env_def)

lemma print_metrics_world:
  "print_metrics env ms w =
     (Inr (), w\<lparr>stdout := stdout w @ map (\<lambda>(n, a). n @ '': '' @ str env (compute env a)) ms\<rparr>)"
  by (induction ms arbitrary: w) (auto simp add: prog_defs)

lemma close_removes: "fig \<notin> fst ` set (figs (snd (close fig w)))"
  by (auto simp add: close_def)

lemmas render_defs = render_def subplots_def heatmap_def tick_params_def set_xlabel_def
  set_ylabel_def set_title_def savefig_def gcf_def write_file_def modify_figure_def
  blank_figure_def

subsection \<open>The command line\<close>

text \<open>
  C10: the flag \<^verbatim>\<open>--config_path\<close> is declared neither required nor with a default. On
  the empty command line the argument parser reports no usage error and returns a namespace
  whose attribute \<open>config_path\<close> is \<^verbatim>\<open>None\<close>; that value is what the driver gives to the
  JSON parser, and when the JSON parser raises on it the exception is the outcome of the
  whole script: nothing handles it, and nothing has been printed or called before.
\<close>

theorem config_path_absent:
  "map arg_required parser = [False] \<and> map arg_default parser = [None] \<and>
   (\<exists>ns. parse_args parser [] = Inr ns \<and> getattr ns ''config_path'' = Inr None) \<and>
   (parse_json env None = Inl e \<longrightarrow> driver env [] w = (Inl e, w))"
  by (simp add: parse_args_empty getattr_def driver_def startup_def prog_defs)
     (simp add: parser_eq)

theorem config_path_absent_witness:
  "parse_json (example_env (example_config ''CIFAR10'' ''ResNet50'')) None
     = Inl (Raised ''TypeError'')
   \<and> driver (example_env (example_config ''CIFAR10'' ''ResNet50'')) [] empty_world
     = (Inl (Raised ''TypeError''), empty_world)"
proof -
  have h: "parse_json (example_env (example_config ''CIFAR10'' ''ResNet50'')) None
             = Inl (Raised ''TypeError'')"
    by (simp add: example_env_def)
  from config_path_absent [of "example_env (example_config ''CIFAR10'' ''ResNet50'')"
      "Raised ''TypeError''" empty_world] h
  show ?thesis by simp
qed

subsection \<open>The dataset branch\<close>

lemma without_basic:
  "without_dispatcher (ret a)" "without_dispatcher (raise e)" "without_dispatcher (print s)"
  "without_dispatcher (lift r)" "without_dispatcher (exit n)"
  by (simp_all add: without_dispatcher_def prog_defs)

lemma without_record_call:
  "\<not> is_dataset_construction c \<Longrightarrow> without_dispatcher (record_call c)"
  by (simp add: without_dispatcher_def prog_defs)

lemma without_seq:
  assumes "without_dispatcher p" and "\<And>a. without_dispatcher (f a)"
  shows "without_dispatcher (seq p f)"
  unfolding without_dispatcher_def
proof
  fix w
  from assms(1) obtain cs where cs: "calls (snd (p w)) = calls w @ cs"
    "filter is_dataset_construction cs = []"
    unfolding without_dispatcher_def by blast
  show "\<exists>cs. calls (snd (seq p f w)) = calls w @ cs \<and> filter is_dataset_construction cs = []"
  proof (cases "p w")
    case (Pair r w1)
    show ?thesis
    proof (cases r)
      case (Inl e)
      with Pair cs show ?thesis by (auto simp add: seq_def)
    next
      case (Inr a)
      from assms(2)[of a] obtain ds where ds: "calls (snd (f a w1)) = calls w1 @ ds"
        "filter is_dataset_construction ds = []"
        unfolding without_dispatcher_def by blast
      with Pair Inr cs have "calls (snd (seq p f w)) = calls w @ (cs @ ds)"
        "filter is_dataset_construction (cs @ ds) = []"
        by (simp_all add: seq_def)
      then show ?thesis by blast
    qed
  qed
qed

lemma without_if:
  "without_dispatcher p \<Longrightarrow> without_dispatcher q \<Longrightarrow> without_dispatcher (if c then p else q)"
  by simp

lemma without_prod:
  "(\<And>a b. without_dispatcher (f a b)) \<Longrightarrow> without_dispatcher (case x of (a, b) \<Rightarrow> f a b)"
  by (cases x) simp

lemma without_plot:
  "without_dispatcher (subplots d)" "without_dispatcher (modify_figure n h)"
  "without_dispatcher gcf" "without_dispatcher (write_file s g)" "without_dispatcher (close n)"
  by (simp_all add: without_dispatcher_def subplots_def modify_figure_def gcf_def
        write_file_def close_def Let_def)

lemma without_print_metrics: "without_dispatcher (print_metrics env ms)"
  by (induction ms) (auto intro!: without_seq without_basic)

lemmas without_intros = without_seq without_basic without_record_call without_if without_prod
  without_plot without_print_metrics

lemma without_startup: "without_dispatcher (startup env argv)"
  unfolding startup_def seed_everything_def by (intro without_intros) simp

lemma without_prepare: "without_dispatcher (prepare env config)"
proof (cases "dataset config = ''CIFAR10''")
  case False
  then have "prepare env config =
    seq (print ''[ERROR] Currently only CIFAR10 dataset is supported. Exiting...'') (\<lambda>_. exit 1)"
    by (auto simp add: prepare_def dataset_branch_def prog_defs fun_eq_iff)
  then show ?thesis by (simp add: without_intros)
next
  case ds: True
  show ?thesis
  proof (cases "network config = ''ResNet50''")
    case True
    with ds have "prepare env config =
      seq (call_generate_CIFAR10 env (batch_size config) (validation_size config) (augment config))
        (\<lambda>(train_loader, validation_loader, test_loader, classes).
      seq (call_ResNet50 env (include_top config) (weights config) 10) (\<lambda>model_obj.
      ret (test_loader, classes, 10, model_obj)))"
      by (auto simp add: prepare_def dataset_branch_def network_branch_def name_lookup_def
            prog_defs fun_eq_iff split: prod.splits sum.splits)
    then show ?thesis
      by (simp add: call_generate_CIFAR10_def call_ResNet50_def) (intro without_intros; simp)
  next
    case False
    with ds have "prepare env config =
      seq (call_generate_CIFAR10 env (batch_size config) (validation_size config) (augment config))
        (\<lambda>(train_loader, validation_loader, test_loader, classes).
      seq (print ''[ERROR] Currently only ResNet50 network is supported. Exiting...'') (\<lambda>_.
      raise (NameError ''network'')))"
      by (auto simp add: prepare_def dataset_branch_def network_branch_def name_lookup_def
            prog_defs fun_eq_iff split: prod.splits sum.splits)
    then show ?thesis
      by (simp add: call_generate_CIFAR10_def) (intro without_intros; simp)
  qed
qed

lemma without_evaluate: "without_dispatcher (evaluate env config n net te)"
  unfolding evaluate_def load_from_checkpoint_def trainer_test_def Let_def
  by (intro without_intros; simp)

lemma without_render: "without_dispatcher (render env m classes)"
  unfolding render_def heatmap_def tick_params_def set_xlabel_def set_ylabel_def set_title_def
    savefig_def Let_def
  by (intro without_intros; simp)

lemma without_driver: "without_dispatcher (driver env argv)"
  unfolding driver_def
  by (intro without_intros without_startup without_prepare without_evaluate without_render)

lemma without_new_calls:
  "without_dispatcher p \<Longrightarrow> filter is_dataset_construction (new_calls p w) = []"
  unfolding without_dispatcher_def new_calls_def
  by (metis append_eq_conv_conj)

text \<open>
  C8: no run of the driver makes a call of the dataset dispatcher: none of the calls it
  adds to the record constructs a dataset class. Its own branch accepts the identifier
  \<^verbatim>\<open>"CIFAR10"\<close> only: a run that has read a configuration with any other identifier prints
  the error line and leaves with status 1, having called nothing but the seeding, so no
  loader is built. This includes \<^verbatim>\<open>"CIFAR100"\<close> and \<^verbatim>\<open>"CIFAR10_128"\<close>, on both of which
  \<open>load_dataset\<close> constructs the class of that name.
\<close>

theorem driver_rejects_other_datasets:
  assumes "startup env argv w = (Inr config, w1)"
    and "dataset config \<noteq> ''CIFAR10''"
  shows "driver env argv w =
           (Inl (Exit 1),
            w1\<lparr>stdout := stdout w1 @
                 [''[ERROR] Currently only CIFAR10 dataset is supported. Exiting...'']\<rparr>)
         \<and> calls w1 = calls w @ [Seed_everything (seed config)]
         \<and> filter is_dataset_construction (new_calls (driver env' argv') w') = []
         \<and> (dataset config = ''CIFAR100'' \<longrightarrow>
              load_dataset D config w0 =
                (D CIFAR100 (batch_size config) (validation_size config) (augment config),
                 w0\<lparr>calls := calls w0 @
                      [Construct_dataset CIFAR100 (batch_size config) (validation_size config)
                         (augment config)]\<rparr>))
         \<and> (dataset config = ''CIFAR10_128'' \<longrightarrow>
              load_dataset D config w0 =
                (D CIFAR10_128 (batch_size config) (validation_size config) (augment config),
                 w0\<lparr>calls := calls w0 @
                      [Construct_dataset CIFAR10_128 (batch_size config) (validation_size config)
                         (augment config)]\<rparr>))"
proof -
  have "driver env argv w =
           (Inl (Exit 1),
            w1\<lparr>stdout := stdout w1 @
                 [''[ERROR] Currently only CIFAR10 dataset is supported. Exiting...'']\<rparr>)"
    using assms by (simp add: driver_def prepare_def dataset_branch_def prog_defs)
  moreover have "calls w1 = calls w @ [Seed_everything (seed config)]"
    using assms(1)
    by (auto simp add: startup_def seed_everything_def prog_defs split: sum.splits if_splits)
  moreover have "filter is_dataset_construction (new_calls (driver env' argv') w') = []"
    by (rule without_new_calls [OF without_driver])
  moreover have "dataset config = ''CIFAR100'' \<longrightarrow>
              load_dataset D config w0 =
                (D CIFAR100 (batch_size config) (validation_size config) (augment config),
                 w0\<lparr>calls := calls w0 @
                      [Construct_dataset CIFAR100 (batch_size config) (validation_size config)
                         (augment config)]\<rparr>)"
    by (simp add: load_dataset_known Datasets_CIFAR100_def)
  moreover have "dataset config = ''CIFAR10_128'' \<longrightarrow>
              load_dataset D config w0 =
                (D CIFAR10_128 (batch_size config) (validation_size config) (augment config),
                 w0\<lparr>calls := calls w0 @
                      [Construct_dataset CIFAR10_128 (batch_size config) (validation_size config)
                         (augment config)]\<rparr>)"
    by (simp add: load_dataset_known Datasets_CIFAR10_128_def)
  ultimately show ?thesis by blast
qed

theorem driver_rejects_other_datasets_witness:
  "startup (example_env (example_config ''CIFAR100'' ''ResNet50'')) example_argv empty_world =
     (Inr (example_config ''CIFAR100'' ''ResNet50''),
      empty_world\<lparr>calls := [Seed_everything 42],
        stdout := [''[INFO] CUDA is not available. Training on CPU...'']\<rparr>)
   \<and> dataset (example_config ''CIFAR100'' ''ResNet50'') \<noteq> ''CIFAR10''
   \<and> driver (example_env (example_config ''CIFAR100'' ''ResNet50'')) example_argv empty_world =
     (Inl (Exit 1),
      empty_world\<lparr>calls := [Seed_everything 42],
        stdout := [''[INFO] CUDA is not available. Training on CPU...'',
                   ''[ERROR] Currently only CIFAR10 dataset is supported. Exiting...'']\<rparr>)
   \<and> load_dataset example_datasets (example_config ''CIFAR100'' ''ResNet50'') empty_world =
     (Inr (CIFAR100, 32, 1 / 10, True),
      empty_world\<lparr>calls := [Construct_dataset CIFAR100 32 (1 / 10) True]\<rparr>)"
proof -
  let ?cfg = "example_config ''CIFAR100'' ''ResNet50''"
  have h1: "startup (example_env ?cfg) example_argv empty_world =
     (Inr ?cfg,
      empty_world\<lparr>calls := calls empty_world @ [Seed_everything (seed ?cfg)],
        stdout := stdout empty_world @ [''[INFO] CUDA is not available. Training on CPU...'']\<rparr>)"
    by (rule example_startup)
  have h2: "dataset ?cfg \<noteq> ''CIFAR10''"
    by (simp add: example_config_def)
  have h3: "dataset ?cfg = ''CIFAR100''"
    by (simp add: example_config_def)
  from driver_rejects_other_datasets
    [OF h1 h2, of "example_env ?cfg" example_argv empty_world example_datasets empty_world]
    h1 h2 h3
  show ?thesis
    by (simp add: empty_world_def example_config_def example_datasets_def)
qed

subsection \<open>The network branch\<close>

text \<open>
  C3: in a run that reaches the network branch (the configuration was read, the dataset
  is \<^verbatim>\<open>"CIFAR10"\<close> and the loaders were built) with a network identifier other than
  \<^verbatim>\<open>"ResNet50"\<close>, the branch prints its error line and completes, leaving the name
  \<open>network\<close> unbound; the script goes on to the construction of the model, where the
  reference to \<open>network\<close> ends the run with a \<open>NameError\<close>. No network has been constructed.
\<close>

theorem invalid_network_fails_late:
  assumes "startup env argv w = (Inr config, w1)"
    and "dataset config = ''CIFAR10''"
    and "generate_CIFAR10 env (batch_size config) (validation_size config) (augment config)
           = Inr loaders"
    and "network config \<noteq> ''ResNet50''"
  shows "network_branch env config w2 =
           (Inr None,
            w2\<lparr>stdout := stdout w2 @
                 [''[ERROR] Currently only ResNet50 network is supported. Exiting...'']\<rparr>)
         \<and> driver env argv w =
           (Inl (NameError ''network''),
            w1\<lparr>calls := calls w1 @
                   [Generate_CIFAR10 (batch_size config) (validation_size config)
                      (augment config)],
                stdout := stdout w1 @
                   [''[ERROR] Currently only ResNet50 network is supported. Exiting...'']\<rparr>)"
  using assms
  by (cases loaders)
     (simp add: driver_def prepare_def dataset_branch_def network_branch_def name_lookup_def
        call_generate_CIFAR10_def prog_defs)

theorem invalid_network_fails_late_witness:
  "startup (example_env (example_config ''CIFAR10'' ''VGG16'')) example_argv empty_world =
     (Inr (example_config ''CIFAR10'' ''VGG16''),
      empty_world\<lparr>calls := [Seed_everything 42],
        stdout := [''[INFO] CUDA is not available. Training on CPU...'']\<rparr>)
   \<and> dataset (example_config ''CIFAR10'' ''VGG16'') = ''CIFAR10''
   \<and> network (example_config ''CIFAR10'' ''VGG16'') \<noteq> ''ResNet50''
   \<and> driver (example_env (example_config ''CIFAR10'' ''VGG16'')) example_argv empty_world =
     (Inl (NameError ''network''),
      empty_world\<lparr>calls := [Seed_everything 42, Generate_CIFAR10 32 (1 / 10) True],
        stdout := [''[INFO] CUDA is not available. Training on CPU...'',
                   ''[ERROR] Currently only ResNet50 network is supported. Exiting...'']\<rparr>)"
proof -
  let ?cfg = "example_config ''CIFAR10'' ''VGG16''"
  have h1: "startup (example_env ?cfg) example_argv empty_world =
     (Inr ?cfg,
      empty_world\<lparr>calls := calls empty_world @ [Seed_everything (seed ?cfg)],
        stdout := stdout empty_world @ [''[INFO] CUDA is not available. Training on CPU...'']\<rparr>)"
    by (rule example_startup)
  have h2: "dataset ?cfg = ''CIFAR10''"
    by (simp add: example_config_def)
  have h3: "generate_CIFAR10 (example_env ?cfg) (batch_size ?cfg) (validation_size ?cfg)
              (augment ?cfg)
            = Inr ([], [], [(1, 0), (2, 1)], [(''airplane'', 0), (''automobile'', 1)])"
    by (simp add: example_env_def)
  have h4: "network ?cfg \<noteq> ''ResNet50''"
    by (simp add: example_config_def)
  from invalid_network_fails_late [OF h1 h2 h3 h4, of empty_world] h1 h2 h4
  show ?thesis
    by (simp add: empty_world_def example_config_def)
qed

text \<open>
  C1, the network half, on one run: with the dataset \<^verbatim>\<open>"CIFAR10"\<close> and the network
  identifier \<^verbatim>\<open>"ResNet18"\<close>, which is outside the enumeration, the script prints the line
  that announces the exit and then does not leave by \<^verbatim>\<open>exit\<close>: its outcome is the
  \<open>NameError\<close> of the next statement, whatever the status.
\<close>

theorem network_branch_does_not_exit:
  "fst (driver (example_env (example_config ''CIFAR10'' ''ResNet18'')) example_argv empty_world)
     = Inl (NameError ''network'')
   \<and> (\<forall>n. fst (driver (example_env (example_config ''CIFAR10'' ''ResNet18'')) example_argv
               empty_world) \<noteq> Inl (Exit n))
   \<and> stdout (snd (driver (example_env (example_config ''CIFAR10'' ''ResNet18'')) example_argv
               empty_world))
     = [''[INFO] CUDA is not available. Training on CPU...'',
        ''[ERROR] Currently only ResNet50 network is supported. Exiting...'']"
  by (simp add: driver_def example_startup prepare_def dataset_branch_def network_branch_def
        name_lookup_def call_generate_CIFAR10_def prog_defs example_config_simps
        example_env_simps empty_world_def)

text \<open>
  C5: with the network identifier \<^verbatim>\<open>"ResNet50"\<close>, in a run whose dataset branch and
  generator have succeeded, the one network constructed is a \<open>ResNet50\<close>, called with
  \<open>include_top\<close> and \<open>weights\<close> of the configuration and with the \<open>num_classes\<close> that the
  branch of the selected dataset has bound, which is 10.
\<close>

theorem resnet50_arguments:
  assumes "dataset config = ''CIFAR10''"
    and "generate_CIFAR10 env (batch_size config) (validation_size config) (augment config)
           = Inr (train_loader, validation_loader, test_loader, classes)"
    and "network config = ''ResNet50''"
  shows "(\<exists>g. dataset_branch env config w = (Inr (g, 10), w))
         \<and> prepare env config w =
           (case ResNet50 env (include_top config) (weights config) 10 of
              Inl e \<Rightarrow> Inl e
            | Inr net \<Rightarrow> Inr (test_loader, classes, 10, net),
            w\<lparr>calls := calls w @
                 [Generate_CIFAR10 (batch_size config) (validation_size config) (augment config),
                  Construct_ResNet50 (include_top config) (weights config) 10]\<rparr>)"
  using assms
  by (simp add: prepare_def dataset_branch_def network_branch_def name_lookup_def
        call_generate_CIFAR10_def call_ResNet50_def prog_defs split: sum.splits)

theorem resnet50_arguments_witness:
  "dataset (example_config ''CIFAR10'' ''ResNet50'') = ''CIFAR10''
   \<and> network (example_config ''CIFAR10'' ''ResNet50'') = ''ResNet50''
   \<and> calls (snd (prepare (example_env (example_config ''CIFAR10'' ''ResNet50''))
               (example_config ''CIFAR10'' ''ResNet50'') empty_world))
     = [Generate_CIFAR10 32 (1 / 10) True, Construct_ResNet50 True None 10]
   \<and> (\<exists>net. fst (prepare (example_env (example_config ''CIFAR10'' ''ResNet50''))
               (example_config ''CIFAR10'' ''ResNet50'') empty_world)
     = Inr ([(1, 0), (2, 1)], [(''airplane'', 0), (''automobile'', 1)], 10, net))"
proof -
  let ?cfg = "example_config ''CIFAR10'' ''ResNet50''"
  have h1: "dataset ?cfg = ''CIFAR10''"
    by (simp add: example_config_def)
  have h2: "generate_CIFAR10 (example_env ?cfg) (batch_size ?cfg) (validation_size ?cfg)
              (augment ?cfg)
            = Inr ([], [], [(1, 0), (2, 1)], [(''airplane'', 0), (''automobile'', 1)])"
    by (simp add: example_env_def)
  have h3: "network ?cfg = ''ResNet50''"
    by (simp add: example_config_def)
  have h4: "ResNet50 (example_env ?cfg) (include_top ?cfg) (weights ?cfg) 10 = Inr (\<lambda>x. x + 1)"
    by (simp add: example_env_def)
  from resnet50_arguments [OF h1 h2 h3, of empty_world] h1 h3
  show ?thesis
    unfolding h4 by (simp add: empty_world_def example_config_def)
qed

subsection \<open>The number of classes\<close>

lemma test_step_preserves:
  "map (\<lambda>(n, a). (n, m_class a, m_num_classes a)) (metrics (snd (test_step m b i)))
     = map (\<lambda>(n, a). (n, m_class a, m_num_classes a)) (metrics m)"
  "m_class (confusion_matrix (snd (test_step m b i))) = m_class (confusion_matrix m)"
  "m_num_classes (confusion_matrix (snd (test_step m b i))) = m_num_classes (confusion_matrix m)"
  by (cases b; simp add: test_step_def step_def update_collection_def update_def Let_def
        split_def comp_def)+

lemma test_loop_preserves:
  "map (\<lambda>(n, a). (n, m_class a, m_num_classes a)) (metrics (test_loop m bs i))
     = map (\<lambda>(n, a). (n, m_class a, m_num_classes a)) (metrics m)
   \<and> m_class (confusion_matrix (test_loop m bs i)) = m_class (confusion_matrix m)
   \<and> m_num_classes (confusion_matrix (test_loop m bs i)) = m_num_classes (confusion_matrix m)"
  by (induction m bs i rule: test_loop.induct) (simp_all add: test_step_preserves)

lemma prepare_num_classes:
  assumes "prepare env config w = (Inr (te, cl, nc, net), w')"
  shows "nc = 10"
  using assms
  by (auto simp add: prepare_def dataset_branch_def prog_defs
        split: if_splits prod.splits sum.splits)

lemma evaluate_model:
  assumes "evaluate env config nc net te w = (Inr m, w')"
  shows "\<exists>net'. m = test_loop ((Model_init nc net (CrossEntropyLoss env))\<lparr>model := net'\<rparr>) te 0"
  using assms
  by (auto simp add: evaluate_def load_from_checkpoint_def trainer_test_def prog_defs Let_def
        split: if_splits prod.splits sum.splits)

lemma example_run:
  "\<exists>m w'. driver (example_env (example_config ''CIFAR10'' ''ResNet50'')) example_argv empty_world
            = (Inr m, w')"
  by (simp add: driver_def example_startup prepare_def dataset_branch_def network_branch_def
        name_lookup_def call_generate_CIFAR10_def call_ResNet50_def evaluate_def
        load_from_checkpoint_def trainer_test_def print_metrics_world render_defs close_def
        prog_defs Let_def example_config_simps example_env_simps empty_world_def)

text \<open>
  C9: whenever the dataset branch of the driver completes, the \<open>num_classes\<close> it has bound
  is 10, and an adapter constructed with it holds four metrics and a confusion matrix
  that all have 10 classes; the adapter with which a run of the driver ends holds the four metrics
  (accuracy, precision, recall, AUROC) and the confusion matrix, all five constructed with
  10 classes. The class-name mapping that the dataset returned plays no part: the
  environment, and with it the mapping, is arbitrary.
\<close>

theorem num_classes_hard_coded:
  "(dataset_branch env config w0 = (Inr (g, n), w1) \<longrightarrow>
        n = 10
        \<and> map (\<lambda>(name, a). (name, m_class a, m_num_classes a)) (metrics (Model_init n net crit))
          = [(''accuracy'', Accuracy, 10), (''precision'', Precision, 10),
             (''recall'', Recall, 10), (''auc'', AUROC, 10)]
        \<and> (m_class (confusion_matrix (Model_init n net crit)),
            m_num_classes (confusion_matrix (Model_init n net crit)))
          = (ConfusionMatrix, 10))
   \<and> (driver env argv w = (Inr m, w') \<longrightarrow>
        map (\<lambda>(name, a). (name, m_class a, m_num_classes a)) (metrics m)
          = [(''accuracy'', Accuracy, 10), (''precision'', Precision, 10),
             (''recall'', Recall, 10), (''auc'', AUROC, 10)]
        \<and> (m_class (confusion_matrix m), m_num_classes (confusion_matrix m))
          = (ConfusionMatrix, 10))"
proof (intro conjI impI)
  assume "dataset_branch env config w0 = (Inr (g, n), w1)"
  then show n: "n = 10"
    by (auto simp add: dataset_branch_def prog_defs split: if_splits)
  show "map (\<lambda>(name, a). (name, m_class a, m_num_classes a)) (metrics (Model_init n net crit))
          = [(''accuracy'', Accuracy, 10), (''precision'', Precision, 10),
             (''recall'', Recall, 10), (''auc'', AUROC, 10)]"
    unfolding n by (simp add: Model_init_def new_metric_def)
  show "(m_class (confusion_matrix (Model_init n net crit)),
            m_num_classes (confusion_matrix (Model_init n net crit)))
          = (ConfusionMatrix, 10)"
    unfolding n by (simp add: Model_init_def new_metric_def)
next
  assume run: "driver env argv w = (Inr m, w')"
  from run obtain config' wa p wb
    where "prepare env config' wa = (Inr p, wb)"
      and rest: "(case p of (test_loader, classes, num_classes, model_obj) \<Rightarrow>
              seq (evaluate env config' num_classes model_obj test_loader) (\<lambda>m.
              seq (print_metrics env (metrics m)) (\<lambda>_.
              seq (render env m classes) (\<lambda>_. ret m)))) wb = (Inr m, w')"
    unfolding driver_def by (elim seq_Inr_elim)
  moreover obtain te cl nc net where p: "p = (te, cl, nc, net)"
    by (cases p) auto
  ultimately have nc: "nc = 10"
    using prepare_num_classes by blast
  from rest obtain m1 wc where ev: "evaluate env config' nc net te wb = (Inr m1, wc)"
    and tail: "seq (print_metrics env (metrics m1)) (\<lambda>_.
              seq (render env m1 cl) (\<lambda>_. ret m1)) wc = (Inr m, w')"
    unfolding p by (auto elim: seq_Inr_elim)
  from tail have "m = m1"
    by (auto elim!: seq_Inr_elim simp add: ret_def)
  with ev nc obtain net'
    where m: "m = test_loop ((Model_init 10 net (CrossEntropyLoss env))\<lparr>model := net'\<rparr>) te 0"
    using evaluate_model by blast
  show "map (\<lambda>(name, a). (name, m_class a, m_num_classes a)) (metrics m)
          = [(''accuracy'', Accuracy, 10), (''precision'', Precision, 10),
             (''recall'', Recall, 10), (''auc'', AUROC, 10)]"
    unfolding m by (simp add: test_loop_preserves Model_init_def new_metric_def)
  show "(m_class (confusion_matrix m), m_num_classes (confusion_matrix m))
          = (ConfusionMatrix, 10)"
    unfolding m by (simp add: test_loop_preserves Model_init_def new_metric_def)
qed

theorem num_classes_hard_coded_witness:
  "(\<exists>g w1. dataset_branch (example_env (example_config ''CIFAR10'' ''ResNet50''))
             (example_config ''CIFAR10'' ''ResNet50'') empty_world = (Inr (g, 10), w1))
   \<and> (\<exists>m w'. driver (example_env (example_config ''CIFAR10'' ''ResNet50'')) example_argv
               empty_world = (Inr m, w')
        \<and> map (\<lambda>(name, a). (name, m_num_classes a)) (metrics m)
            = [(''accuracy'', 10), (''precision'', 10), (''recall'', 10), (''auc'', 10)]
        \<and> m_num_classes (confusion_matrix m) = 10
        \<and> length (snd (snd (snd (projr (generate_CIFAR10
             (example_env (example_config ''CIFAR10'' ''ResNet50'')) 32 (1 / 10) True))))) = 2)"
proof -
  let ?cfg = "example_config ''CIFAR10'' ''ResNet50''"
  obtain g w1 where b: "dataset_branch (example_env ?cfg) ?cfg empty_world = (Inr (g, 10), w1)"
    by (simp add: dataset_branch_def example_config_def ret_def)
  obtain m w' where r: "driver (example_env ?cfg) example_argv empty_world = (Inr m, w')"
    using example_run by blast
  from num_classes_hard_coded [of "example_env ?cfg" ?cfg empty_world g 10 w1 "\<lambda>x. x + 1"
      "\<lambda>p t. p - t" example_argv empty_world m w'] r
  have "map (\<lambda>(name, a). (name, m_class a, m_num_classes a)) (metrics m)
          = [(''accuracy'', Accuracy, 10), (''precision'', Precision, 10),
             (''recall'', Recall, 10), (''auc'', AUROC, 10)]"
    and "(m_class (confusion_matrix m), m_num_classes (confusion_matrix m))
          = (ConfusionMatrix, 10)"
    by blast+
  then have "map (\<lambda>(name, a). (name, m_class a, m_num_classes a)) (metrics m)
          = [(''accuracy'', Accuracy, 10), (''precision'', Precision, 10),
             (''recall'', Recall, 10), (''auc'', AUROC, 10)]"
    and c: "m_num_classes (confusion_matrix m) = 10"
    by simp_all
  then have "map (\<lambda>(name, a). (name, m_num_classes a)) (metrics m)
            = map (\<lambda>(name, c, k). (name, k)) [(''accuracy'', Accuracy, 10),
                (''precision'', Precision, 10), (''recall'', Recall, 10), (''auc'', AUROC, 10)]"
    by (metis (mono_tags, lifting) case_prod_conv list.map_comp comp_apply map_eq_conv
          prod.collapse)
  then have a: "map (\<lambda>(name, a). (name, m_num_classes a)) (metrics m)
            = [(''accuracy'', 10), (''precision'', 10), (''recall'', 10), (''auc'', 10)]"
    by simp
  have l: "length (snd (snd (snd (projr (generate_CIFAR10 (example_env ?cfg) 32 (1 / 10)
              True))))) = 2"
    by (simp add: example_env_def)
  show ?thesis
  proof (intro conjI)
    from b show "\<exists>g w1. dataset_branch (example_env ?cfg) ?cfg empty_world = (Inr (g, 10), w1)"
      by (intro exI)
    from r a c l show "\<exists>m w'. driver (example_env ?cfg) example_argv empty_world = (Inr m, w')
        \<and> map (\<lambda>(name, a). (name, m_num_classes a)) (metrics m)
            = [(''accuracy'', 10), (''precision'', 10), (''recall'', 10), (''auc'', 10)]
        \<and> m_num_classes (confusion_matrix m) = 10
        \<and> length (snd (snd (snd (projr (generate_CIFAR10 (example_env ?cfg) 32 (1 / 10)
             True))))) = 2"
      by (intro exI conjI)
  qed
qed

subsection \<open>The rendered confusion matrix\<close>

lemma render_result:
  "\<exists>w'. render env m classes w = (Inr (), w')
     \<and> files w' = (files w)(''confusion_matrix.png'' \<mapsto>
          \<lparr>figsize = (8, 6), heatmap_data = Some (compute env (confusion_matrix m)),
           annot = True, fmt = ''d'', cmap = ''Blues'',
           xticklabels = map fst classes, yticklabels = map fst classes,
           x_labelrotation = 45, xlabel = ''Predicted Labels'', ylabel = ''True Labels'',
           title = ''Confusion Matrix''\<rparr>)
     \<and> calls w' = calls w @ [Savefig ''confusion_matrix.png'', Close_figure (next_fig w)]
     \<and> next_fig w \<notin> fst ` set (figs w')"
proof -
  define w' where "w' = snd (render env m classes w)"
  have ran: "render env m classes w = (Inr (), w')"
    unfolding w'_def by (simp add: render_defs close_def prog_defs Let_def)
  have saved: "files w' = (files w)(''confusion_matrix.png'' \<mapsto>
          \<lparr>figsize = (8, 6), heatmap_data = Some (compute env (confusion_matrix m)),
           annot = True, fmt = ''d'', cmap = ''Blues'',
           xticklabels = map fst classes, yticklabels = map fst classes,
           x_labelrotation = 45, xlabel = ''Predicted Labels'', ylabel = ''True Labels'',
           title = ''Confusion Matrix''\<rparr>)"
    unfolding w'_def by (simp add: render_defs close_def prog_defs Let_def)
  have order: "calls w' = calls w @ [Savefig ''confusion_matrix.png'', Close_figure (next_fig w)]"
    unfolding w'_def by (simp add: render_defs close_def prog_defs Let_def)
  have "\<exists>w2. w' = snd (close (next_fig w) w2)"
    unfolding w'_def by (auto simp add: render_defs prog_defs Let_def)
  then have closed: "next_fig w \<notin> fst ` set (figs w')"
    using close_removes by metis
  from ran saved order closed show ?thesis by blast
qed

lemma prepare_classes:
  assumes "prepare env config w = (Inr (te, cl, nc, net), w')"
  shows "\<exists>tr va. generate_CIFAR10 env (batch_size config) (validation_size config)
           (augment config) = Inr (tr, va, te, cl)"
  using assms
  by (auto simp add: prepare_def dataset_branch_def call_generate_CIFAR10_def prog_defs
        split: if_splits prod.splits sum.splits)

text \<open>
  C7: from any state of the world, and for any adapter \<open>m\<close> and class-name mapping, the
  rendering completes and the file \<^verbatim>\<open>confusion_matrix.png\<close> of the working directory
  then holds, whatever it held before, an annotated heatmap of the computed confusion
  matrix whose tick labels on both axes are the class names in the order of the mapping,
  with the x tick labels rotated by 45 degrees. No other file changes. The figure is
  saved first and closed next, and is no longer open at the end. In a run of the driver
  that completes, the file holds this heatmap for the adapter the run ends with and for
  the mapping that the dataset generator returned.
\<close>

theorem confusion_matrix_rendered:
  "(\<exists>w'. render env m classes w = (Inr (), w')
     \<and> files w' = (files w)(''confusion_matrix.png'' \<mapsto>
          \<lparr>figsize = (8, 6), heatmap_data = Some (compute env (confusion_matrix m)),
           annot = True, fmt = ''d'', cmap = ''Blues'',
           xticklabels = map fst classes, yticklabels = map fst classes,
           x_labelrotation = 45, xlabel = ''Predicted Labels'', ylabel = ''True Labels'',
           title = ''Confusion Matrix''\<rparr>)
     \<and> calls w' = calls w @ [Savefig ''confusion_matrix.png'', Close_figure (next_fig w)]
     \<and> next_fig w \<notin> fst ` set (figs w'))
   \<and> (driver env argv v = (Inr m', v') \<longrightarrow>
        (\<exists>config v1 tr va te cl.
           startup env argv v = (Inr config, v1)
           \<and> generate_CIFAR10 env (batch_size config) (validation_size config) (augment config)
               = Inr (tr, va, te, cl)
           \<and> files v' ''confusion_matrix.png'' = Some
               \<lparr>figsize = (8, 6), heatmap_data = Some (compute env (confusion_matrix m')),
                annot = True, fmt = ''d'', cmap = ''Blues'',
                xticklabels = map fst cl, yticklabels = map fst cl,
                x_labelrotation = 45, xlabel = ''Predicted Labels'', ylabel = ''True Labels'',
                title = ''Confusion Matrix''\<rparr>))"
proof (intro conjI impI)
  show "\<exists>w'. render env m classes w = (Inr (), w')
     \<and> files w' = (files w)(''confusion_matrix.png'' \<mapsto>
          \<lparr>figsize = (8, 6), heatmap_data = Some (compute env (confusion_matrix m)),
           annot = True, fmt = ''d'', cmap = ''Blues'',
           xticklabels = map fst classes, yticklabels = map fst classes,
           x_labelrotation = 45, xlabel = ''Predicted Labels'', ylabel = ''True Labels'',
           title = ''Confusion Matrix''\<rparr>)
     \<and> calls w' = calls w @ [Savefig ''confusion_matrix.png'', Close_figure (next_fig w)]
     \<and> next_fig w \<notin> fst ` set (figs w')"
    by (rule render_result)
next
  assume run: "driver env argv v = (Inr m', v')"
  from run obtain config v1 p v2
    where st: "startup env argv v = (Inr config, v1)"
      and pr: "prepare env config v1 = (Inr p, v2)"
      and rest: "(case p of (test_loader, classes, num_classes, model_obj) \<Rightarrow>
              seq (evaluate env config num_classes model_obj test_loader) (\<lambda>m.
              seq (print_metrics env (metrics m)) (\<lambda>_.
              seq (render env m classes) (\<lambda>_. ret m)))) v2 = (Inr m', v')"
    unfolding driver_def by (elim seq_Inr_elim)
  obtain te cl nc net where p: "p = (te, cl, nc, net)"
    by (cases p) auto
  from pr p obtain tr va
    where gen: "generate_CIFAR10 env (batch_size config) (validation_size config)
                  (augment config) = Inr (tr, va, te, cl)"
    using prepare_classes by blast
  from rest obtain m1 v4 where rd: "render env m1 cl v4 = (Inr (), v')" and "m' = m1"
    unfolding p by (auto elim!: seq_Inr_elim simp add: ret_def)
  with render_result [of env m1 cl v4]
  have "files v' ''confusion_matrix.png'' = Some
               \<lparr>figsize = (8, 6), heatmap_data = Some (compute env (confusion_matrix m')),
                annot = True, fmt = ''d'', cmap = ''Blues'',
                xticklabels = map fst cl, yticklabels = map fst cl,
                x_labelrotation = 45, xlabel = ''Predicted Labels'', ylabel = ''True Labels'',
                title = ''Confusion Matrix''\<rparr>"
    by auto
  with st gen show "\<exists>config v1 tr va te cl.
           startup env argv v = (Inr config, v1)
           \<and> generate_CIFAR10 env (batch_size config) (validation_size config) (augment config)
               = Inr (tr, va, te, cl)
           \<and> files v' ''confusion_matrix.png'' = Some
               \<lparr>figsize = (8, 6), heatmap_data = Some (compute env (confusion_matrix m')),
                annot = True, fmt = ''d'', cmap = ''Blues'',
                xticklabels = map fst cl, yticklabels = map fst cl,
                x_labelrotation = 45, xlabel = ''Predicted Labels'', ylabel = ''True Labels'',
                title = ''Confusion Matrix''\<rparr>"
    by blast
qed

lemma example_rendering_run:
  "\<exists>m w'. driver (example_env (example_config ''CIFAR10'' ''ResNet50'')) example_argv
            (empty_world\<lparr>files := [''confusion_matrix.png'' \<mapsto> blank_figure (1, 1)]\<rparr>)
            = (Inr m, w') \<and> compute (example_env (example_config ''CIFAR10'' ''ResNet50''))
                (confusion_matrix m) = 2"
  by (simp add: driver_def example_startup prepare_def dataset_branch_def network_branch_def
        name_lookup_def call_generate_CIFAR10_def call_ResNet50_def evaluate_def
        load_from_checkpoint_def trainer_test_def print_metrics_world render_defs close_def
        prog_defs Let_def example_config_simps example_env_simps empty_world_def)
     (simp add: example_env_def test_step_def step_def update_def update_collection_def
        Model_init_def new_metric_def)

theorem confusion_matrix_rendered_witness:
  "\<exists>m w'. driver (example_env (example_config ''CIFAR10'' ''ResNet50'')) example_argv
            (empty_world\<lparr>files := [''confusion_matrix.png'' \<mapsto> blank_figure (1, 1)]\<rparr>)
            = (Inr m, w')
     \<and> files w' ''confusion_matrix.png'' = Some
          \<lparr>figsize = (8, 6), heatmap_data = Some 2,
           annot = True, fmt = ''d'', cmap = ''Blues'',
           xticklabels = [''airplane'', ''automobile''],
           yticklabels = [''airplane'', ''automobile''],
           x_labelrotation = 45, xlabel = ''Predicted Labels'', ylabel = ''True Labels'',
           title = ''Confusion Matrix''\<rparr>"
proof -
  let ?cfg = "example_config ''CIFAR10'' ''ResNet50''"
  let ?w = "empty_world\<lparr>files := [''confusion_matrix.png'' \<mapsto> blank_figure (1, 1)]\<rparr>"
  obtain m w' where r: "driver (example_env ?cfg) example_argv ?w = (Inr m, w')"
    and c: "compute (example_env ?cfg) (confusion_matrix m) = 2"
    using example_rendering_run by blast
  from confusion_matrix_rendered [of "example_env ?cfg" m "[]" ?w example_argv ?w m w'] r
  obtain config v1 tr va te cl
    where st: "startup (example_env ?cfg) example_argv ?w = (Inr config, v1)"
      and gen: "generate_CIFAR10 (example_env ?cfg) (batch_size config) (validation_size config)
                  (augment config) = Inr (tr, va, te, cl)"
      and f: "files w' ''confusion_matrix.png'' = Some
               \<lparr>figsize = (8, 6),
                heatmap_data = Some (compute (example_env ?cfg) (confusion_matrix m)),
                annot = True, fmt = ''d'', cmap = ''Blues'',
                xticklabels = map fst cl, yticklabels = map fst cl,
                x_labelrotation = 45, xlabel = ''Predicted Labels'', ylabel = ''True Labels'',
                title = ''Confusion Matrix''\<rparr>"
    by blast
  from gen have "cl = [(''airplane'', 0), (''automobile'', 1)]"
    by (simp add: example_env_simps)
  with f c have "files w' ''confusion_matrix.png'' = Some
          \<lparr>figsize = (8, 6), heatmap_data = Some 2,
           annot = True, fmt = ''d'', cmap = ''Blues'',
           xticklabels = [''airplane'', ''automobile''],
           yticklabels = [''airplane'', ''automobile''],
           x_labelrotation = 45, xlabel = ''Predicted Labels'', ylabel = ''True Labels'',
           title = ''Confusion Matrix''\<rparr>"
    by simp
  with r show ?thesis by blast
qed

end
